theory Spec2Isabelle
  imports Main "HOL-Library.Sublist" "HOL-Library.Log_Nat" "HOL-Library.AList"
begin

section \<open>Python values used by the loader\<close>

text \<open>
  The loader of \<^verbatim>\<open>excel_loader.py\<close> is embedded function by function. Python strings are
  modelled as \<open>string\<close>, read as sequences of code points below 256; on that range the
  functions below follow what \<^verbatim>\<open>str.strip\<close>, \<^verbatim>\<open>str.lower\<close>, \<^verbatim>\<open>int\<close> and \<^verbatim>\<open>float\<close> do.
  Exceptions are values of \<open>py_error\<close>, and a computation that may raise returns
  \<open>py_error + 'a\<close> with \<open>Inl\<close> for the exception. Dictionaries are association lists
  in insertion order, updated with \<open>AList.update\<close> as Python updates a \<^verbatim>\<open>dict\<close>.
\<close>

datatype py_error =
    ValueError string
  | OverflowError
  | IndexError
  | KeyError
  | ParseError

subsection \<open>Strings\<close>

definition isspace :: "char \<Rightarrow> bool" where
  "isspace c = (c \<in> set [CHR 0x09, CHR 0x0A, CHR 0x0B, CHR 0x0C, CHR 0x0D,
                            CHR 0x1C, CHR 0x1D, CHR 0x1E, CHR 0x1F, CHR 0x20,
                            CHR 0x85, CHR 0xA0])"

definition strip :: "string \<Rightarrow> string" where
  "strip s = rev (dropWhile isspace (rev (dropWhile isspace s)))"

definition isdigit :: "char \<Rightarrow> bool" where
  "isdigit c = (let n = (of_char c :: nat) in 48 \<le> n \<and> n \<le> 57)"

definition isupper_ascii :: "char \<Rightarrow> bool" where
  "isupper_ascii c = (let n = (of_char c :: nat) in 65 \<le> n \<and> n \<le> 90)"

definition lower_char :: "char \<Rightarrow> char" where
  "lower_char c =
     (let n = (of_char c :: nat)
      in if (65 \<le> n \<and> n \<le> 90) \<or> (192 \<le> n \<and> n \<le> 222 \<and> n \<noteq> 215)
         then char_of (n + 32) else c)"

definition lower :: "string \<Rightarrow> string" where
  "lower s = map lower_char s"

definition startswith :: "string \<Rightarrow> string \<Rightarrow> bool" where
  "startswith s p = prefix p s"

definition endswith :: "string \<Rightarrow> string \<Rightarrow> bool" where
  "endswith s p = suffix p s"

text \<open>\<^verbatim>\<open>needle in s\<close> on strings: \<open>needle\<close> occurs in \<open>s\<close> as a contiguous run.\<close>

definition contains :: "string \<Rightarrow> string \<Rightarrow> bool" where
  "contains s needle = sublist needle s"

text \<open>\<^verbatim>\<open>s.lstrip("/")\<close>\<close>

definition lstrip_slash :: "string \<Rightarrow> string" where
  "lstrip_slash s = dropWhile (\<lambda>c. c = CHR ''/'') s"

subsection \<open>Lists\<close>

text \<open>\<^verbatim>\<open>xs[i]\<close>: a negative index counts from the end, and an index outside the list raises.\<close>

definition getitem :: "'a list \<Rightarrow> int \<Rightarrow> py_error + 'a" where
  "getitem xs i =
     (if 0 \<le> i then (if i < int (length xs) then Inr (xs ! nat i) else Inl IndexError)
      else if - int (length xs) \<le> i then Inr (xs ! nat (int (length xs) + i))
      else Inl IndexError)"

subsection \<open>\<^verbatim>\<open>int(str)\<close>\<close>

definition digit_val :: "char \<Rightarrow> int" where
  "digit_val c = of_char c - 48"

definition int_of_digits :: "string \<Rightarrow> int" where
  "int_of_digits ds = foldl (\<lambda>a c. 10 * a + digit_val c) 0 ds"

text \<open>Digits with single underscores between them: \<^verbatim>\<open>digit (["_"] digit)*\<close>.\<close>

fun digitpart_ok :: "string \<Rightarrow> bool" where
  "digitpart_ok [] = False"
| "digitpart_ok [c] = isdigit c"
| "digitpart_ok (c # d # cs) =
     (isdigit c \<and> (if d = CHR ''_'' then digitpart_ok cs else digitpart_ok (d # cs)))"

definition split_sign :: "string \<Rightarrow> bool \<times> string" where
  "split_sign s =
     (case s of
        [] \<Rightarrow> (False, [])
      | c # cs \<Rightarrow> if c = CHR ''-'' then (True, cs)
                  else if c = CHR ''+'' then (False, cs) else (False, s))"

text \<open>
  \<^verbatim>\<open>int(s)\<close> in base 10: surrounding whitespace is dropped, one sign is allowed, and the
  rest must be digits with single underscores between them. The interpreter's
  configurable limit on the number of digits is not part of the model.
\<close>

definition py_int :: "string \<Rightarrow> py_error + int" where
  "py_int s =
     (let (neg, body) = split_sign (strip s)
      in if digitpart_ok body
         then (let n = int_of_digits (filter (\<lambda>c. c \<noteq> CHR ''_'') body)
               in Inr (if neg then - n else n))
         else Inl (ValueError ''invalid literal for int() with base 10''))"

section \<open>Element trees\<close>

text \<open>
  \<^verbatim>\<open>xml.etree.ElementTree\<close>: an element has a tag (with its namespace in braces), an
  attribute dictionary, the text before its first child, and its children in document order.
\<close>

datatype element =
  Element (etag: string) (eattrib: "(string \<times> string) list") (etext: "string option")
          (echildren: "element list")

definition NAMESPACE_MAIN :: string where
  "NAMESPACE_MAIN = ''http://schemas.openxmlformats.org/spreadsheetml/2006/main''"

definition REL_NS :: string where
  "REL_NS = ''http://schemas.openxmlformats.org/officeDocument/2006/relationships''"

definition PKG_REL_NS :: string where
  "PKG_REL_NS = ''http://schemas.openxmlformats.org/package/2006/relationships''"

text \<open>The f-string \<^verbatim>\<open>f"{{{ns}}}name"\<close>.\<close>

definition qname :: "string \<Rightarrow> string \<Rightarrow> string" where
  "qname ns name = ''{'' @ ns @ ''}'' @ name"

text \<open>\<^verbatim>\<open>elem.attrib.get(key)\<close> and \<^verbatim>\<open>elem.attrib.get(key, default)\<close>\<close>

definition attrib_get :: "element \<Rightarrow> string \<Rightarrow> string option" where
  "attrib_get e k = map_of (eattrib e) k"

definition attrib_get_default :: "element \<Rightarrow> string \<Rightarrow> string \<Rightarrow> string" where
  "attrib_get_default e k d = (case map_of (eattrib e) k of None \<Rightarrow> d | Some v \<Rightarrow> v)"

text \<open>\<^verbatim>\<open>elem.find(tag)\<close>: the first child with that tag.\<close>

definition find_child :: "element \<Rightarrow> string \<Rightarrow> element option" where
  "find_child e t = List.find (\<lambda>c. etag c = t) (echildren e)"

text \<open>\<^verbatim>\<open>elem.findall("t1/t2/...")\<close>: the path is given as its list of tags.\<close>

fun findall :: "string list \<Rightarrow> element \<Rightarrow> element list" where
  "findall [] e = [e]"
| "findall (t # ts) e = concat (map (findall ts) (filter (\<lambda>c. etag c = t) (echildren e)))"

text \<open>\<^verbatim>\<open>elem.iter()\<close> and \<^verbatim>\<open>elem.findall(".//t")\<close>: all descendants in document order.\<close>

fun iter :: "element \<Rightarrow> element list" where
  "iter (Element t a x cs) = Element t a x cs # concat (map iter cs)"

definition findall_descendants :: "element \<Rightarrow> string \<Rightarrow> element list" where
  "findall_descendants e t = filter (\<lambda>d. etag d = t) (concat (map iter (echildren e)))"

section \<open>The archive\<close>

text \<open>
  An open \<^verbatim>\<open>ZipFile\<close> maps member names to their bytes. The loader only ever parses a
  member as XML, so a member is either a parsed document or bytes that
  \<^verbatim>\<open>ET.fromstring\<close> rejects. \<open>read_xml\<close> is \<^verbatim>\<open>ET.fromstring(zf.read(path))\<close>.
\<close>

datatype part = NotWellFormed | Document element

type_synonym zipfile = "string \<Rightarrow> part option"

definition read_xml :: "zipfile \<Rightarrow> string \<Rightarrow> py_error + element" where
  "read_xml zf path =
     (case zf path of
        None \<Rightarrow> Inl KeyError
      | Some NotWellFormed \<Rightarrow> Inl ParseError
      | Some (Document tree) \<Rightarrow> Inr tree)"

section \<open>Shared strings and cell values\<close>

text \<open>\<^verbatim>\<open>t.text or ""\<close>\<close>

definition text_or_empty :: "element \<Rightarrow> string" where
  "text_or_empty e = (case etext e of None \<Rightarrow> [] | Some s \<Rightarrow> s)"

definition read_shared_strings :: "zipfile \<Rightarrow> py_error + string list" where
  "read_shared_strings zf =
     (case zf ''xl/sharedStrings.xml'' of
        None \<Rightarrow> Inr []
      | Some NotWellFormed \<Rightarrow> Inl ParseError
      | Some (Document tree) \<Rightarrow>
          Inr (map (\<lambda>si. concat (map text_or_empty
                                    (findall_descendants si (qname NAMESPACE_MAIN ''t''))))
                   (findall [qname NAMESPACE_MAIN ''si''] tree)))"

definition cell_value :: "string list \<Rightarrow> element \<Rightarrow> py_error + string option" where
  "cell_value shared_strings cell =
     (case find_child cell (qname NAMESPACE_MAIN ''v'') of
        None \<Rightarrow> Inr None
      | Some v \<Rightarrow>
          (let cell_type = attrib_get cell ''t'';
               raw = text_or_empty v
           in if cell_type = Some ''s''
              then (if shared_strings \<noteq> []
                    then (case py_int raw of
                            Inl e \<Rightarrow> Inl e
                          | Inr i \<Rightarrow> (case getitem shared_strings i of
                                        Inl e \<Rightarrow> Inl e
                                      | Inr shared \<Rightarrow> Inr (Some shared)))
                    else Inr (Some raw))
              else Inr (Some raw)))"

text \<open>A cell element \<^verbatim>\<open><c r=".." t=".."><v>..</v></c>\<close>, for the examples.\<close>

definition mk_cell :: "string \<Rightarrow> string option \<Rightarrow> string \<Rightarrow> element" where
  "mk_cell r t v =
     Element (qname NAMESPACE_MAIN ''c'')
       ((''r'', r) # (case t of None \<Rightarrow> [] | Some ty \<Rightarrow> [(''t'', ty)]))
       None
       [Element (qname NAMESPACE_MAIN ''v'') [] (Some v) []]"

subsection \<open>\<^verbatim>\<open>float(str)\<close> and \<^verbatim>\<open>int(float)\<close>\<close>

text \<open>
  A Python float is an IEEE double: a rational, an infinity or a NaN. \<open>py_float\<close> follows
  \<^verbatim>\<open>float(s)\<close>: whitespace is dropped, an underscore must stand between two digits, and
  what remains is a sign followed by \<^verbatim>\<open>inf\<close>, \<^verbatim>\<open>infinity\<close> or \<^verbatim>\<open>nan\<close> in any case, or by a
  decimal numeral with optional fraction and exponent. The value of a numeral is the
  nearest double, ties to even, and a numeral too large for a double is an infinity.
\<close>

datatype pyfloat = Finite rat | PosInf | NegInf | NaN

fun remove_underscores :: "char \<Rightarrow> string \<Rightarrow> string option" where
  "remove_underscores prev [] = (if prev = CHR ''_'' then None else Some [])"
| "remove_underscores prev (p # ps) =
     (if p = CHR ''_''
      then (if isdigit prev then remove_underscores p ps else None)
      else if prev = CHR ''_'' \<and> \<not> isdigit p then None
      else map_option ((#) p) (remove_underscores p ps))"

definition parse_exponent :: "string \<Rightarrow> int option" where
  "parse_exponent s =
     (case s of
        [] \<Rightarrow> Some 0
      | c # cs \<Rightarrow>
          if c = CHR ''e'' \<or> c = CHR ''E''
          then (let (neg, ds) = split_sign cs
                in if ds \<noteq> [] \<and> list_all isdigit ds
                   then Some (if neg then - int_of_digits ds else int_of_digits ds)
                   else None)
          else None)"

definition parse_decimal :: "string \<Rightarrow> rat option" where
  "parse_decimal s =
     (let ip = takeWhile isdigit s;
          r1 = dropWhile isdigit s;
          (fp, r2) = (case r1 of
                        [] \<Rightarrow> ([], [])
                      | c # cs \<Rightarrow> if c = CHR ''.''
                                  then (takeWhile isdigit cs, dropWhile isdigit cs)
                                  else ([], r1))
      in if ip = [] \<and> fp = [] then None
         else (case parse_exponent r2 of
                 None \<Rightarrow> None
               | Some e \<Rightarrow>
                   Some (of_int (int_of_digits (ip @ fp)) * 10 powi (e - int (length fp)))))"

definition round_half_even :: "rat \<Rightarrow> int" where
  "round_half_even q =
     (let f = \<lfloor>q\<rfloor>; r = q - of_int f
      in if r < 1 / 2 then f else if 1 / 2 < r then f + 1
         else if even f then f else f + 1)"

text \<open>For \<open>q > 0\<close>, the exponent \<open>e\<close> with \<open>2 powi e \<le> q < 2 powi (e + 1)\<close>.\<close>

definition floor_log2 :: "rat \<Rightarrow> int" where
  "floor_log2 q =
     (let (a, b) = quotient_of q; d = bitlen a - bitlen b
      in if 2 powi d \<le> q then d else d - 1)"

definition nearest_double :: "rat \<Rightarrow> pyfloat" where
  "nearest_double q =
     (if q = 0 then Finite 0
      else (let e = floor_log2 \<bar>q\<bar>;
                u = max (e - 52) (- 1074);
                x = of_int (round_half_even (\<bar>q\<bar> / 2 powi u)) * 2 powi u
            in if 2 powi 1024 \<le> x then (if q < 0 then NegInf else PosInf)
               else Finite (if q < 0 then - x else x)))"

definition py_float :: "string \<Rightarrow> py_error + pyfloat" where
  "py_float s =
     (case remove_underscores (CHR 0x00) (strip s) of
        None \<Rightarrow> Inl (ValueError ''could not convert string to float'')
      | Some t \<Rightarrow>
          (let (neg, body) = split_sign t
           in if lower body = ''inf'' \<or> lower body = ''infinity''
              then Inr (if neg then NegInf else PosInf)
              else if lower body = ''nan'' then Inr NaN
              else (case parse_decimal body of
                      None \<Rightarrow> Inl (ValueError ''could not convert string to float'')
                    | Some q \<Rightarrow> Inr (nearest_double (if neg then - q else q)))))"

text \<open>\<^verbatim>\<open>int(x)\<close> on a float truncates towards zero, and raises on an infinity or a NaN.\<close>

definition py_int_of_float :: "pyfloat \<Rightarrow> py_error + int" where
  "py_int_of_float x =
     (case x of
        Finite q \<Rightarrow> Inr (if 0 \<le> q then \<lfloor>q\<rfloor> else \<lceil>q\<rceil>)
      | PosInf \<Rightarrow> Inl OverflowError
      | NegInf \<Rightarrow> Inl OverflowError
      | NaN \<Rightarrow> Inl (ValueError ''cannot convert float NaN to integer''))"

subsection \<open>\<^verbatim>\<open>datetime\<close>\<close>

text \<open>
  The proleptic Gregorian calendar of the \<^verbatim>\<open>datetime\<close> module, by day ordinals: day 1 is
  0001-01-01 and the last day, 9999-12-31, is \<open>MAXORDINAL\<close>. Only the date part is kept:
  the loader adds whole days to a midnight and prints the date.
\<close>

record datetime =
  year :: int
  month :: int
  day :: int

definition MAXORDINAL :: int where
  "MAXORDINAL = 3652059"

definition DAYS_IN_MONTH :: "int list" where
  "DAYS_IN_MONTH = [- 1, 31, 28, 31, 30, 31, 30, 31, 31, 30, 31, 30, 31]"

definition DAYS_BEFORE_MONTH :: "int list" where
  "DAYS_BEFORE_MONTH = [- 1, 0, 31, 59, 90, 120, 151, 181, 212, 243, 273, 304, 334]"

definition is_leap :: "int \<Rightarrow> bool" where
  "is_leap y = (y mod 4 = 0 \<and> (y mod 100 \<noteq> 0 \<or> y mod 400 = 0))"

definition days_before_year :: "int \<Rightarrow> int" where
  "days_before_year y0 = (let y = y0 - 1 in y * 365 + y div 4 - y div 100 + y div 400)"

definition days_before_month :: "int \<Rightarrow> int \<Rightarrow> int" where
  "days_before_month y m = DAYS_BEFORE_MONTH ! nat m + (if 2 < m \<and> is_leap y then 1 else 0)"

definition ymd2ord :: "int \<Rightarrow> int \<Rightarrow> int \<Rightarrow> int" where
  "ymd2ord y m d = days_before_year y + days_before_month y m + d"

definition ord2ymd :: "int \<Rightarrow> int \<times> int \<times> int" where
  "ord2ymd n0 =
     (let n = n0 - 1;
          n400 = n div 146097; n = n mod 146097;
          y = n400 * 400 + 1;
          n100 = n div 36524; n = n mod 36524;
          n4 = n div 1461; n = n mod 1461;
          n1 = n div 365; n = n mod 365;
          y = y + n100 * 100 + n4 * 4 + n1
      in if n1 = 4 \<or> n100 = 4 then (y - 1, 12, 31)
         else (let leapyear = (n1 = 3 \<and> (n4 \<noteq> 24 \<or> n100 = 3));
                   m = (n + 50) div 32;
                   preceding = DAYS_BEFORE_MONTH ! nat m + (if 2 < m \<and> leapyear then 1 else 0)
               in if n < preceding
                  then (let m = m - 1;
                            preceding = preceding
                              - (DAYS_IN_MONTH ! nat m + (if m = 2 \<and> leapyear then 1 else 0))
                        in (y, m, n - preceding + 1))
                  else (y, m, n - preceding + 1)))"

text \<open>\<^verbatim>\<open>timedelta(days=days)\<close>: the day count is limited to nine digits.\<close>

definition timedelta :: "int \<Rightarrow> py_error + int" where
  "timedelta days = (if 999999999 < \<bar>days\<bar> then Inl OverflowError else Inr days)"

text \<open>\<^verbatim>\<open>dt + delta\<close>: the result must lie in the calendar.\<close>

definition datetime_add :: "datetime \<Rightarrow> int \<Rightarrow> py_error + datetime" where
  "datetime_add dt delta =
     (let n = ymd2ord (year dt) (month dt) (day dt) + delta
      in if 1 \<le> n \<and> n \<le> MAXORDINAL
         then (let (y, m, d) = ord2ymd n in Inr \<lparr>year = y, month = m, day = d\<rparr>)
         else Inl OverflowError)"

fun digits_of :: "nat \<Rightarrow> string" where
  "digits_of n =
     (if n < 10 then [char_of (48 + n)]
      else digits_of (n div 10) @ [char_of (48 + n mod 10)])"

text \<open>\<^verbatim>\<open>"%0wd" % n\<close> for \<open>n \<ge> 0\<close>\<close>

definition zero_pad :: "nat \<Rightarrow> int \<Rightarrow> string" where
  "zero_pad w n = (let ds = digits_of (nat n) in replicate (w - length ds) (CHR ''0'') @ ds)"

text \<open>\<^verbatim>\<open>dt.date().isoformat()\<close>\<close>

definition isoformat :: "datetime \<Rightarrow> string" where
  "isoformat dt = zero_pad 4 (year dt) @ ''-'' @ zero_pad 2 (month dt) @ ''-'' @ zero_pad 2 (day dt)"

section \<open>The date serial converter\<close>

definition BASE_DATE :: datetime where
  "BASE_DATE = \<lparr>year = 1899, month = 12, day = 30\<rparr>"

text \<open>
  \<open>excel_serial_to_iso\<close>: the argument is optional as the source tests it against
  \<^verbatim>\<open>None\<close>. The first \<^verbatim>\<open>try\<close> catches \<^verbatim>\<open>ValueError\<close> around \<^verbatim>\<open>float(text)\<close>, the second
  catches \<^verbatim>\<open>OverflowError\<close> around the addition; \<^verbatim>\<open>int(serial)\<close> stands between the two.
\<close>

definition excel_serial_to_iso :: "string option \<Rightarrow> py_error + string option" where
  "excel_serial_to_iso v =
     (case v of
        None \<Rightarrow> Inr None
      | Some s \<Rightarrow>
          (let text = strip s
           in if text = [] then Inr None
              else (case py_float text of
                      Inl (ValueError msg) \<Rightarrow> Inr None
                    | Inl e \<Rightarrow> Inl e
                    | Inr serial \<Rightarrow>
                        (case py_int_of_float serial of
                           Inl e \<Rightarrow> Inl e
                         | Inr days \<Rightarrow>
                             (case (case timedelta days of
                                      Inl e \<Rightarrow> Inl e
                                    | Inr delta \<Rightarrow> datetime_add BASE_DATE delta) of
                                Inl OverflowError \<Rightarrow> Inr None
                              | Inl e \<Rightarrow> Inl e
                              | Inr date_value \<Rightarrow> Inr (Some (isoformat date_value)))))))"

section \<open>The loader\<close>

definition FIELD_MAP :: "(string \<times> string) list" where
  "FIELD_MAP =
     [(''A'', ''tag_number''),
      (''C'', ''part_description''),
      (''E'', ''rejection_type''),
      (''G'', ''rejection_class''),
      (''I'', ''defect_description''),
      (''K'', ''rejected_by''),
      (''M'', ''containment_date''),
      (''O'', ''total_rejected_qty_initial''),
      (''Q'', ''mfg_date''),
      (''S'', ''mfg_shift''),
      (''U'', ''supplier''),
      (''W'', ''total_rejected_qty_final''),
      (''Y'', ''disposition''),
      (''AA'', ''authorized_by''),
      (''AC'', ''date_authorized''),
      (''AE'', ''date_sort_rework''),
      (''AG'', ''good_pcs''),
      (''AI'', ''reworked_pcs''),
      (''AK'', ''scrap_pcs''),
      (''AM'', ''complete''),
      (''AO'', ''closed_date''),
      (''AQ'', ''closed_by''),
      (''AS'', ''qad_number''),
      (''AU'', ''qad_date''),
      (''AW'', ''completed_by'')]"

definition DATE_FIELDS :: "string list" where
  "DATE_FIELDS =
     [''containment_date'', ''mfg_date'', ''date_authorized'', ''date_sort_rework'',
      ''closed_date'', ''qad_date'']"

record ExcelData =
  records :: "(string \<times> string) list list"
  dropdowns :: "(string \<times> string list) list"

subsection \<open>Sheet targets\<close>

text \<open>The dictionary comprehension over the relationships: \<^verbatim>\<open>rel.attrib["Id"]\<close> raises on a
  relationship of worksheet type that lacks the attribute.\<close>

fun rels_dict :: "element list \<Rightarrow> (string \<times> string) list \<Rightarrow> py_error + (string \<times> string) list" where
  "rels_dict [] rels = Inr rels"
| "rels_dict (rel # rest) rels =
     (if endswith (attrib_get_default rel ''Type'' []) ''/worksheet''
      then (case attrib_get rel ''Id'' of
              None \<Rightarrow> Inl KeyError
            | Some i \<Rightarrow>
                (case attrib_get rel ''Target'' of
                   None \<Rightarrow> Inl KeyError
                 | Some target \<Rightarrow> rels_dict rest (AList.update i target rels)))
      else rels_dict rest rels)"

fun targets_loop ::
  "(string \<times> string) list \<Rightarrow> (string \<times> string) list \<Rightarrow> (string \<times> string) list
   \<Rightarrow> (string \<times> string) list" where
  "targets_loop rels [] acc = acc"
| "targets_loop rels ((name, rid) # sheets) acc =
     (case map_of rels rid of
        None \<Rightarrow> targets_loop rels sheets acc
      | Some target \<Rightarrow>
          if target = [] then targets_loop rels sheets acc
          else if \<not> startswith target ''/''
          then targets_loop rels sheets (AList.update name (''xl/'' @ target) acc)
          else targets_loop rels sheets (AList.update name (lstrip_slash target) acc))"

definition sheet_targets :: "zipfile \<Rightarrow> py_error + (string \<times> string) list" where
  "sheet_targets zf =
     (case read_xml zf ''xl/workbook.xml'' of
        Inl e \<Rightarrow> Inl e
      | Inr workbook_xml \<Rightarrow>
          (let sheets =
                 concat (map (\<lambda>sheet.
                                (let name = attrib_get_default sheet ''name'' [];
                                     rid = attrib_get sheet (qname REL_NS ''id'')
                                 in case rid of
                                      None \<Rightarrow> []
                                    | Some r \<Rightarrow> if r \<noteq> [] then [(name, r)] else []))
                             (findall [qname NAMESPACE_MAIN ''sheets'',
                                       qname NAMESPACE_MAIN ''sheet''] workbook_xml))
           in case read_xml zf ''xl/_rels/workbook.xml.rels'' of
                Inl e \<Rightarrow> Inl e
              | Inr rels_xml \<Rightarrow>
                  (case rels_dict (findall [qname PKG_REL_NS ''Relationship''] rels_xml) [] of
                     Inl e \<Rightarrow> Inl e
                   | Inr rels \<Rightarrow> Inr (targets_loop rels sheets []))))"

subsection \<open>Locating the two sheets\<close>

text \<open>The cells of a sheet, \<^verbatim>\<open>findall("sheetData/row/c")\<close>.\<close>

definition sheet_cells :: "element \<Rightarrow> element list" where
  "sheet_cells tree =
     findall [qname NAMESPACE_MAIN ''sheetData'', qname NAMESPACE_MAIN ''row'',
              qname NAMESPACE_MAIN ''c''] tree"

text \<open>The loop of \<open>sheet_contains_text\<close> over the cells.\<close>

fun cells_contain_text :: "string list \<Rightarrow> element list \<Rightarrow> string \<Rightarrow> py_error + bool" where
  "cells_contain_text shared_strings [] needle = Inr False"
| "cells_contain_text shared_strings (cell # cells) needle =
     (case cell_value shared_strings cell of
        Inl e \<Rightarrow> Inl e
      | Inr None \<Rightarrow> cells_contain_text shared_strings cells needle
      | Inr (Some v) \<Rightarrow>
          if v \<noteq> [] \<and> contains (lower v) (lower needle) then Inr True
          else cells_contain_text shared_strings cells needle)"

definition sheet_contains_text ::
  "zipfile \<Rightarrow> string list \<Rightarrow> string \<Rightarrow> string \<Rightarrow> py_error + bool" where
  "sheet_contains_text zf shared_strings path needle =
     (case read_xml zf path of
        Inl e \<Rightarrow> Inl e
      | Inr tree \<Rightarrow> cells_contain_text shared_strings (sheet_cells tree) needle)"

text \<open>\<^verbatim>\<open>for path in ...: if self._sheet_contains_text(zf, path, needle): return path\<close>\<close>

fun probe_sheets ::
  "zipfile \<Rightarrow> string list \<Rightarrow> string list \<Rightarrow> string \<Rightarrow> py_error + string option" where
  "probe_sheets zf shared_strings [] needle = Inr None"
| "probe_sheets zf shared_strings (path # paths) needle =
     (case sheet_contains_text zf shared_strings path needle of
        Inl e \<Rightarrow> Inl e
      | Inr found \<Rightarrow>
          if found then Inr (Some path) else probe_sheets zf shared_strings paths needle)"

definition find_log_sheet ::
  "zipfile \<Rightarrow> string list \<Rightarrow> (string \<times> string) list \<Rightarrow> py_error + string option" where
  "find_log_sheet zf shared_strings targets =
     (case List.find (\<lambda>(name, path). startswith (lower name) ''nc log'') targets of
        Some (name, path) \<Rightarrow> Inr (Some path)
      | None \<Rightarrow> probe_sheets zf shared_strings (map snd targets) ''Tag Number'')"

definition find_dropdown_sheet ::
  "zipfile \<Rightarrow> string list \<Rightarrow> (string \<times> string) list \<Rightarrow> py_error + string option" where
  "find_dropdown_sheet zf shared_strings targets =
     (case probe_sheets zf shared_strings
             (map snd (filter (\<lambda>(name, path). contains (lower name) ''sheet'') targets))
             ''Rejection Type:'' of
        Inl e \<Rightarrow> Inl e
      | Inr (Some path) \<Rightarrow> Inr (Some path)
      | Inr None \<Rightarrow> probe_sheets zf shared_strings (map snd targets) ''Rejection Type:'')"

subsection \<open>Log records\<close>

text \<open>\<^verbatim>\<open>re.match(r"([A-Z]+)", s)\<close>: the leading capital letters, if there are any.\<close>

definition match_column :: "string \<Rightarrow> string option" where
  "match_column s =
     (let column = takeWhile isupper_ascii s in if column = [] then None else Some column)"

text \<open>\<^verbatim>\<open>iso or value\<close>\<close>

definition iso_or :: "string option \<Rightarrow> string \<Rightarrow> string" where
  "iso_or iso_date v = (case iso_date of None \<Rightarrow> v | Some s \<Rightarrow> if s = [] then v else s)"

text \<open>The inner loop over the cells of one row, on the pair \<^verbatim>\<open>(record, has_text)\<close>.\<close>

fun log_cells ::
  "string list \<Rightarrow> element list \<Rightarrow> (string \<times> string) list \<times> bool
   \<Rightarrow> py_error + ((string \<times> string) list \<times> bool)" where
  "log_cells shared_strings [] st = Inr st"
| "log_cells shared_strings (cell # cells) (record, has_text) =
     (case match_column (attrib_get_default cell ''r'' []) of
        None \<Rightarrow> log_cells shared_strings cells (record, has_text)
      | Some column \<Rightarrow>
          (case map_of FIELD_MAP column of
             None \<Rightarrow> log_cells shared_strings cells (record, has_text)
           | Some field \<Rightarrow>
               (case cell_value shared_strings cell of
                  Inl e \<Rightarrow> Inl e
                | Inr None \<Rightarrow> log_cells shared_strings cells (record, has_text)
                | Inr (Some v) \<Rightarrow>
                    (let v = strip v
                     in if v = [] then log_cells shared_strings cells (record, has_text)
                        else if field \<in> set DATE_FIELDS
                        then (case excel_serial_to_iso (Some v) of
                                Inl e \<Rightarrow> Inl e
                              | Inr iso_date \<Rightarrow>
                                  log_cells shared_strings cells
                                    (AList.update field (iso_or iso_date v) record, True))
                        else log_cells shared_strings cells
                               (AList.update field v record, True)))))"

text \<open>The outer loop over the rows, on the list \<^verbatim>\<open>records\<close>.\<close>

fun log_rows ::
  "string list \<Rightarrow> element list \<Rightarrow> (string \<times> string) list list
   \<Rightarrow> py_error + (string \<times> string) list list" where
  "log_rows shared_strings [] recs = Inr recs"
| "log_rows shared_strings (row # rows) recs =
     (case py_int (attrib_get_default row ''r'' ''0'') of
        Inl e \<Rightarrow> Inl e
      | Inr row_index \<Rightarrow>
          if row_index < 7 then log_rows shared_strings rows recs
          else (case log_cells shared_strings (findall [qname NAMESPACE_MAIN ''c''] row)
                       ([], False) of
                  Inl e \<Rightarrow> Inl e
                | Inr (record, has_text) \<Rightarrow>
                    if has_text then log_rows shared_strings rows (recs @ [record])
                    else log_rows shared_strings rows recs))"

definition read_log_records ::
  "zipfile \<Rightarrow> string list \<Rightarrow> string \<Rightarrow> py_error + (string \<times> string) list list" where
  "read_log_records zf shared_strings path =
     (case read_xml zf path of
        Inl e \<Rightarrow> Inl e
      | Inr sheet \<Rightarrow>
          log_rows shared_strings
            (findall [qname NAMESPACE_MAIN ''sheetData'', qname NAMESPACE_MAIN ''row''] sheet)
            [])"

subsection \<open>Dropdown lists\<close>

text \<open>\<^verbatim>\<open>re.match(r"([A-Z]+)([0-9]+)", s)\<close>: capital letters followed by digits.\<close>

definition match_column_row :: "string \<Rightarrow> (string \<times> string) option" where
  "match_column_row s =
     (let column = takeWhile isupper_ascii s;
          row_no = takeWhile isdigit (dropWhile isupper_ascii s)
      in if column = [] \<or> row_no = [] then None else Some (column, row_no))"

text \<open>\<^verbatim>\<open>dropdowns[key].append(value)\<close>\<close>

definition dict_append ::
  "string \<Rightarrow> string \<Rightarrow> (string \<times> string list) list \<Rightarrow> (string \<times> string list) list" where
  "dict_append key v d = AList.map_entry key (\<lambda>vs. vs @ [v]) d"

fun dropdown_cells ::
  "string list \<Rightarrow> element list \<Rightarrow> (string \<times> string list) list
   \<Rightarrow> py_error + (string \<times> string list) list" where
  "dropdown_cells shared_strings [] d = Inr d"
| "dropdown_cells shared_strings (cell # cells) d =
     (case match_column_row (attrib_get_default cell ''r'' []) of
        None \<Rightarrow> dropdown_cells shared_strings cells d
      | Some (column, row_no) \<Rightarrow>
          if row_no = ''1'' then dropdown_cells shared_strings cells d
          else (case cell_value shared_strings cell of
                  Inl e \<Rightarrow> Inl e
                | Inr None \<Rightarrow> dropdown_cells shared_strings cells d
                | Inr (Some v) \<Rightarrow>
                    if v = [] then dropdown_cells shared_strings cells d
                    else (let v = strip v
                          in if column = ''A''
                             then dropdown_cells shared_strings cells
                                    (dict_append ''rejection_type'' v d)
                             else if column = ''C''
                             then dropdown_cells shared_strings cells
                                    (dict_append ''rejection_class'' v d)
                             else if column = ''E''
                             then dropdown_cells shared_strings cells
                                    (dict_append ''disposition'' v d)
                             else dropdown_cells shared_strings cells d)))"

text \<open>The loop that keeps the first occurrence of each item, on \<^verbatim>\<open>(seen, unique)\<close>.\<close>

fun unique_loop :: "string list \<Rightarrow> string set \<Rightarrow> string list \<Rightarrow> string list" where
  "unique_loop [] seen unique = unique"
| "unique_loop (item # items) seen unique =
     (if item \<notin> seen then unique_loop items (insert item seen) (unique @ [item])
      else unique_loop items seen unique)"

definition deduplicate :: "(string \<times> string list) list \<Rightarrow> (string \<times> string list) list" where
  "deduplicate d = foldl (\<lambda>acc (key, vs). AList.update key (unique_loop vs {} []) acc) d d"

definition read_dropdowns ::
  "zipfile \<Rightarrow> string list \<Rightarrow> string \<Rightarrow> py_error + (string \<times> string list) list" where
  "read_dropdowns zf shared_strings path =
     (case read_xml zf path of
        Inl e \<Rightarrow> Inl e
      | Inr sheet \<Rightarrow>
          (case dropdown_cells shared_strings (sheet_cells sheet)
                  [(''rejection_type'', []), (''rejection_class'', []), (''disposition'', [])] of
             Inl e \<Rightarrow> Inl e
           | Inr d \<Rightarrow> Inr (deduplicate d)))"

subsection \<open>\<^verbatim>\<open>load\<close>\<close>

text \<open>\<^verbatim>\<open>not path\<close> for an optional string: \<^verbatim>\<open>None\<close> and the empty string are false.\<close>

definition falsy :: "string option \<Rightarrow> bool" where
  "falsy p = (case p of None \<Rightarrow> True | Some s \<Rightarrow> s = [])"

definition log_sheet_missing :: py_error where
  "log_sheet_missing = ValueError ''Could not locate NC Log worksheet in workbook.''"

definition dropdown_sheet_missing :: py_error where
  "dropdown_sheet_missing = ValueError ''Could not locate dropdown worksheet in workbook.''"

text \<open>\<open>load\<close>, from the archive once it is open.\<close>

definition load :: "zipfile \<Rightarrow> py_error + ExcelData" where
  "load zf =
     (case read_shared_strings zf of
        Inl e \<Rightarrow> Inl e
      | Inr shared_strings \<Rightarrow>
          (case sheet_targets zf of
             Inl e \<Rightarrow> Inl e
           | Inr targets \<Rightarrow>
               (case find_log_sheet zf shared_strings targets of
                  Inl e \<Rightarrow> Inl e
                | Inr log_sheet_path \<Rightarrow>
                    if falsy log_sheet_path then Inl log_sheet_missing
                    else (case find_dropdown_sheet zf shared_strings targets of
                            Inl e \<Rightarrow> Inl e
                          | Inr dropdown_sheet_path \<Rightarrow>
                              if falsy dropdown_sheet_path then Inl dropdown_sheet_missing
                              else (case read_log_records zf shared_strings
                                           (the log_sheet_path) of
                                      Inl e \<Rightarrow> Inl e
                                    | Inr rs \<Rightarrow>
                                        (case read_dropdowns zf shared_strings
                                                (the dropdown_sheet_path) of
                                           Inl e \<Rightarrow> Inl e
                                         | Inr ds \<Rightarrow>
                                             Inr \<lparr>records = rs, dropdowns = ds\<rparr>))))))"

section \<open>Properties read off the specification\<close>

text \<open>
  A cell counts towards its row when its column is in the field map and its decoded value
  is nonempty after trimming.
\<close>

definition mapped_nonempty :: "string list \<Rightarrow> element \<Rightarrow> bool" where
  "mapped_nonempty shared_strings cell =
     (case match_column (attrib_get_default cell ''r'' []) of
        None \<Rightarrow> False
      | Some column \<Rightarrow>
          (case map_of FIELD_MAP column of
             None \<Rightarrow> False
           | Some field \<Rightarrow>
               (case cell_value shared_strings cell of
                  Inl e \<Rightarrow> False
                | Inr None \<Rightarrow> False
                | Inr (Some v) \<Rightarrow> strip v \<noteq> [])))"

text \<open>A row is included when it is at or above the header threshold and one of its cells
  counts.\<close>

definition row_included :: "string list \<Rightarrow> element \<Rightarrow> bool" where
  "row_included shared_strings row =
     (case py_int (attrib_get_default row ''r'' ''0'') of
        Inl e \<Rightarrow> False
      | Inr row_index \<Rightarrow>
          7 \<le> row_index \<and>
          list_ex (mapped_nonempty shared_strings) (findall [qname NAMESPACE_MAIN ''c''] row))"

text \<open>The record that the cells of a row build.\<close>

definition row_record :: "string list \<Rightarrow> element \<Rightarrow> (string \<times> string) list" where
  "row_record shared_strings row =
     (case log_cells shared_strings (findall [qname NAMESPACE_MAIN ''c''] row) ([], False) of
        Inl e \<Rightarrow> []
      | Inr (record, has_text) \<Rightarrow> record)"

text \<open>A row below the header threshold.\<close>

definition header_row :: "element \<Rightarrow> bool" where
  "header_row row =
     (case py_int (attrib_get_default row ''r'' ''0'') of
        Inl e \<Rightarrow> False
      | Inr row_index \<Rightarrow> row_index < 7)"

text \<open>A sheet carries a marker when the decoded text of one of its cells contains the marker,
  whatever the case of the letters.\<close>

definition has_marker :: "string list \<Rightarrow> element \<Rightarrow> string \<Rightarrow> bool" where
  "has_marker shared_strings tree marker =
     list_ex (\<lambda>cell. case cell_value shared_strings cell of
                       Inl e \<Rightarrow> False
                     | Inr None \<Rightarrow> False
                     | Inr (Some v) \<Rightarrow> contains (lower v) (lower marker))
             (sheet_cells tree)"

text \<open>Every cell of the sheet decodes.\<close>

definition cells_decode :: "string list \<Rightarrow> element \<Rightarrow> bool" where
  "cells_decode shared_strings tree =
     list_all (\<lambda>cell. case cell_value shared_strings cell of Inl e \<Rightarrow> False | Inr v \<Rightarrow> True)
              (sheet_cells tree)"

text \<open>A cell whose declared type marks it as a shared-string cell, with its stored text.\<close>

definition shared_string_cell :: "element \<Rightarrow> string \<Rightarrow> bool" where
  "shared_string_cell cell raw =
     (attrib_get cell ''t'' = Some ''s'' \<and>
      (case find_child cell (qname NAMESPACE_MAIN ''v'') of
         None \<Rightarrow> False
       | Some v \<Rightarrow> text_or_empty v = raw))"

text \<open>A sheet of the archive that carries the marker, and one whose cells all decode.\<close>

definition sheet_marked :: "zipfile \<Rightarrow> string list \<Rightarrow> string \<Rightarrow> string \<Rightarrow> bool" where
  "sheet_marked zf shared_strings marker path =
     (case zf path of
        None \<Rightarrow> False
      | Some NotWellFormed \<Rightarrow> False
      | Some (Document tree) \<Rightarrow> has_marker shared_strings tree marker)"

definition sheet_valid :: "zipfile \<Rightarrow> string list \<Rightarrow> string \<Rightarrow> bool" where
  "sheet_valid zf shared_strings path =
     (case zf path of
        None \<Rightarrow> False
      | Some NotWellFormed \<Rightarrow> False
      | Some (Document tree) \<Rightarrow> cells_decode shared_strings tree)"

section \<open>Example packages\<close>

definition mk_row :: "string \<Rightarrow> element list \<Rightarrow> element" where
  "mk_row r cells = Element (qname NAMESPACE_MAIN ''row'') [(''r'', r)] None cells"

definition mk_sheet :: "element list \<Rightarrow> element" where
  "mk_sheet rows =
     Element (qname NAMESPACE_MAIN ''worksheet'') [] None
       [Element (qname NAMESPACE_MAIN ''sheetData'') [] None rows]"

definition mk_workbook :: "(string \<times> string) list \<Rightarrow> element" where
  "mk_workbook sheets =
     Element (qname NAMESPACE_MAIN ''workbook'') [] None
       [Element (qname NAMESPACE_MAIN ''sheets'') [] None
          (map (\<lambda>(name, rid).
                  Element (qname NAMESPACE_MAIN ''sheet'')
                    [(''name'', name), (qname REL_NS ''id'', rid)] None [])
               sheets)]"

definition mk_rels :: "(string \<times> string) list \<Rightarrow> element" where
  "mk_rels rels =
     Element (qname PKG_REL_NS ''Relationships'') [] None
       (map (\<lambda>(rid, target).
               Element (qname PKG_REL_NS ''Relationship'')
                 [(''Id'', rid), (''Type'', REL_NS @ ''/worksheet''), (''Target'', target)]
                 None [])
            rels)"

definition mk_zip :: "(string \<times> element) list \<Rightarrow> zipfile" where
  "mk_zip parts = map_of (map (\<lambda>(name, tree). (name, Document tree)) parts)"

text \<open>A log sheet with a title row, a header row and three data rows: row 7 holds only
  blanks, row 8 a tag, a date serial and a date that is text, row 9 an infinite serial.\<close>

definition ex_title_row :: element where
  "ex_title_row = mk_row ''1'' [mk_cell ''A1'' None ''Tag Number'']"

definition ex_header_row :: element where
  "ex_header_row = mk_row ''3'' [mk_cell ''A3'' None ''HDR'', mk_cell ''M3'' None ''inf'']"

definition ex_blank_row :: element where
  "ex_blank_row = mk_row ''7'' [mk_cell ''A7'' None ''   '', mk_cell ''B7'' None ''note'']"

definition ex_data_row :: element where
  "ex_data_row =
     mk_row ''8'' [mk_cell ''A8'' None '' T1 '', mk_cell ''M8'' None ''45000.75'',
                   mk_cell ''Q8'' None '' n/a '']"

definition ex_inf_row :: element where
  "ex_inf_row = mk_row ''9'' [mk_cell ''A9'' None ''T2'', mk_cell ''M9'' None ''inf'']"

definition ex_log_sheet :: element where
  "ex_log_sheet = mk_sheet [ex_title_row, ex_header_row, ex_blank_row, ex_data_row]"

text \<open>A dropdown sheet: a header row, a repeated value, and a cell of blanks in column A.\<close>

definition ex_dropdown_sheet :: element where
  "ex_dropdown_sheet =
     mk_sheet
       [mk_row ''1'' [mk_cell ''A1'' None ''Rejection Type:'', mk_cell ''C1'' None ''Class:''],
        mk_row ''2'' [mk_cell ''A2'' None ''Scratch'', mk_cell ''C2'' None '' Major '',
                      mk_cell ''G2'' None ''other''],
        mk_row ''3'' [mk_cell ''A3'' None ''Dent'', mk_cell ''E3'' None ''Scrap''],
        mk_row ''4'' [mk_cell ''A4'' None ''Scratch''],
        mk_row ''5'' [mk_cell ''A5'' None ''   '']]"

definition ex_targets :: "(string \<times> string) list" where
  "ex_targets = [(''Data'', ''xl/worksheets/sheet1.xml''), (''Lists'', ''xl/worksheets/sheet2.xml'')]"

text \<open>A package with no shared-strings part whose sheets are not named by the convention.\<close>

definition ex_package :: zipfile where
  "ex_package =
     mk_zip
       [(''xl/workbook.xml'', mk_workbook [(''Data'', ''rId1''), (''Lists'', ''rId2'')]),
        (''xl/_rels/workbook.xml.rels'',
         mk_rels [(''rId1'', ''worksheets/sheet1.xml''), (''rId2'', ''/xl/worksheets/sheet2.xml'')]),
        (''xl/worksheets/sheet1.xml'', ex_log_sheet),
        (''xl/worksheets/sheet2.xml'', ex_dropdown_sheet)]"

text \<open>A package with the dropdown sheet only, and one with the log sheet only.\<close>

definition ex_no_log_package :: zipfile where
  "ex_no_log_package =
     mk_zip
       [(''xl/workbook.xml'', mk_workbook [(''Lists'', ''rId2'')]),
        (''xl/_rels/workbook.xml.rels'', mk_rels [(''rId2'', ''worksheets/sheet2.xml'')]),
        (''xl/worksheets/sheet2.xml'', ex_dropdown_sheet)]"

definition ex_no_dropdown_package :: zipfile where
  "ex_no_dropdown_package =
     mk_zip
       [(''xl/workbook.xml'', mk_workbook [(''NC Log 2024'', ''rId1'')]),
        (''xl/_rels/workbook.xml.rels'', mk_rels [(''rId1'', ''worksheets/sheet1.xml'')]),
        (''xl/worksheets/sheet1.xml'', ex_log_sheet)]"

section \<open>Shared-string cells\<close>

lemma shared_string_cellD:
  assumes "shared_string_cell cell raw"
  shows "attrib_get cell ''t'' = Some ''s''"
    and "\<exists>v. find_child cell (qname NAMESPACE_MAIN ''v'') = Some v \<and> text_or_empty v = raw"
  using assms by (auto simp: shared_string_cell_def split: option.splits)

lemma cell_value_shared:
  assumes "shared_string_cell cell raw"
  shows "cell_value shared_strings cell =
           (if shared_strings \<noteq> []
            then (case py_int raw of
                    Inl e \<Rightarrow> Inl e
                  | Inr i \<Rightarrow> (case getitem shared_strings i of
                                Inl e \<Rightarrow> Inl e
                              | Inr shared \<Rightarrow> Inr (Some shared)))
            else Inr (Some raw))"
  using shared_string_cellD[OF assms] by (auto simp: cell_value_def Let_def)

text \<open>
  C10. With a table of length \<open>n\<close>, a shared-string cell whose stored text is the integer
  \<open>- k\<close> with \<open>1 \<le> k \<le> n\<close> resolves without error to the entry at position \<open>n - k\<close>:
  the index counts from the end of the table.
\<close>

theorem cell_value_negative_index:
  assumes "shared_string_cell cell raw"
    and "py_int raw = Inr (- int k)"
    and "1 \<le> k" and "k \<le> length shared_strings"
  shows "cell_value shared_strings cell =
           Inr (Some (shared_strings ! (length shared_strings - k)))"
proof -
  from assms(3,4) have ne: "shared_strings \<noteq> []" by auto
  have idx: "nat (int (length shared_strings) + - int k) = length shared_strings - k"
    using assms(4) by simp
  have "getitem shared_strings (- int k) = Inr (shared_strings ! (length shared_strings - k))"
    using assms(3,4) idx by (simp add: getitem_def)
  then show ?thesis
    using ne assms(2) by (simp add: cell_value_shared[OF assms(1)])
qed

text \<open>The last of three entries, through the index \<open>-1\<close>.\<close>

theorem cell_value_negative_index_witness:
  "cell_value [''a'', ''b'', ''c''] (mk_cell ''A7'' (Some ''s'') ''-1'') = Inr (Some ''c'')"
proof -
  have h1: "shared_string_cell (mk_cell ''A7'' (Some ''s'') ''-1'') ''-1''" by code_simp
  have h2: "py_int ''-1'' = Inr (- int 1)" by code_simp
  have h3: "(1::nat) \<le> 1" by simp
  have h4: "1 \<le> length [''a'', ''b'', ''c'']" by simp
  show ?thesis
    using cell_value_negative_index[OF h1 h2 h3 h4] by simp
qed




section \<open>The header threshold\<close>

lemma log_rows_header_row:
  assumes "header_row row"
  shows "log_rows ss (row # rows) recs = log_rows ss rows recs"
  using assms by (auto simp: header_row_def split: sum.splits)

text \<open>
  C6. A row whose index is below the header threshold is skipped whatever it holds: taking
  it out of the sheet, wherever it stands, changes neither the records nor the outcome.
\<close>

theorem header_rows_are_skipped:
  assumes "header_row row"
  shows "log_rows ss (before @ row # after) recs = log_rows ss (before @ after) recs"
proof (induction before arbitrary: recs)
  case Nil
  show ?case using log_rows_header_row[OF assms] by simp
next
  case (Cons r rs)
  show ?case
    by (simp add: Cons.IH split: sum.splits prod.splits)
qed

text \<open>Row 3 of the example holds a tag in column A, and is skipped.\<close>

theorem header_rows_are_skipped_witness:
  "header_row ex_header_row \<and>
   list_ex (mapped_nonempty []) (findall [qname NAMESPACE_MAIN ''c''] ex_header_row) \<and>
   log_rows [] ([ex_title_row] @ ex_header_row # [ex_data_row]) [] =
   log_rows [] ([ex_title_row] @ [ex_data_row]) []"
proof -
  have h: "header_row ex_header_row" by code_simp
  have m: "list_ex (mapped_nonempty []) (findall [qname NAMESPACE_MAIN ''c''] ex_header_row)"
    by code_simp
  show ?thesis
    using h m header_rows_are_skipped[OF h, of "[]" "[ex_title_row]" "[ex_data_row]" "[]"]
    by blast
qed

section \<open>Inputs on which the code leaves the specification\<close>

text \<open>
  C1. The converter raises on a serial that parses to an infinity or a NaN:
  \<^verbatim>\<open>int(serial)\<close> stands outside both \<^verbatim>\<open>try\<close> blocks. A date cell holding \<^verbatim>\<open>inf\<close> aborts
  the reading of the log sheet.
\<close>

theorem excel_serial_to_iso_nonfinite_raises:
  "excel_serial_to_iso (Some ''inf'') = Inl OverflowError \<and>
   excel_serial_to_iso (Some ''nan'') = Inl (ValueError ''cannot convert float NaN to integer'') \<and>
   log_rows [] [ex_inf_row] [] = Inl OverflowError"
  by code_simp

text \<open>
  C3. The dropdown scan tests the value for emptiness before it trims it, so a cell of
  blanks in a designated column appends the empty string to its list.
\<close>

theorem read_dropdowns_keeps_blank_cell:
  "dropdown_cells [] [mk_cell ''A5'' None ''   '']
     [(''rejection_type'', []), (''rejection_class'', []), (''disposition'', [])] =
     Inr [(''rejection_type'', ['''']), (''rejection_class'', []), (''disposition'', [])] \<and>
   read_dropdowns ex_package [] ''xl/worksheets/sheet2.xml'' =
     Inr [(''rejection_type'', [''Scratch'', ''Dent'', '''']),
          (''rejection_class'', [''Major'']), (''disposition'', [''Scrap''])]"
  by code_simp

section \<open>Missing sheets\<close>

lemma find_log_sheet_None:
  "find_log_sheet zf ss targets = Inr None \<longleftrightarrow>
     List.find (\<lambda>(name, path). startswith (lower name) ''nc log'') targets = None \<and>
     probe_sheets zf ss (map snd targets) ''Tag Number'' = Inr None"
  by (auto simp: find_log_sheet_def split: option.splits)

text \<open>
  C9. When neither the sheet names nor the content probe locate the log sheet, the load
  fails with the error that names the log worksheet. It differs from the error that names
  the dropdown worksheet, which a load that found the log sheet but no dropdown sheet fails
  with.
\<close>

theorem log_sheet_not_found:
  assumes "read_shared_strings zf = Inr ss"
    and "sheet_targets zf = Inr targets"
    and "List.find (\<lambda>(name, path). startswith (lower name) ''nc log'') targets = None"
    and "probe_sheets zf ss (map snd targets) ''Tag Number'' = Inr None"
  shows "load zf = Inl log_sheet_missing \<and>
         log_sheet_missing \<noteq> dropdown_sheet_missing \<and>
         (\<forall>zf' ss' targets' p.
            read_shared_strings zf' = Inr ss' \<and> sheet_targets zf' = Inr targets' \<and>
            find_log_sheet zf' ss' targets' = Inr (Some p) \<and> p \<noteq> [] \<and>
            find_dropdown_sheet zf' ss' targets' = Inr None
            \<longrightarrow> load zf' = Inl dropdown_sheet_missing)"
proof (intro conjI allI impI)
  have "find_log_sheet zf ss targets = Inr None"
    using assms(3,4) by (simp add: find_log_sheet_None)
  then show "load zf = Inl log_sheet_missing"
    using assms(1,2) by (simp add: load_def falsy_def)
next
  show "log_sheet_missing \<noteq> dropdown_sheet_missing"
    by (simp add: log_sheet_missing_def dropdown_sheet_missing_def)
next
  fix zf' ss' targets' p
  assume "read_shared_strings zf' = Inr ss' \<and> sheet_targets zf' = Inr targets' \<and>
            find_log_sheet zf' ss' targets' = Inr (Some p) \<and> p \<noteq> [] \<and>
            find_dropdown_sheet zf' ss' targets' = Inr None"
  then show "load zf' = Inl dropdown_sheet_missing"
    by (simp add: load_def falsy_def)
qed

text \<open>A package with no log sheet, and one with no dropdown sheet.\<close>

theorem log_sheet_not_found_witness:
  "load ex_no_log_package = Inl log_sheet_missing \<and>
   load ex_no_dropdown_package = Inl dropdown_sheet_missing \<and>
   log_sheet_missing \<noteq> dropdown_sheet_missing"
proof -
  have h1: "read_shared_strings ex_no_log_package = Inr []" by code_simp
  have h2: "sheet_targets ex_no_log_package = Inr [(''Lists'', ''xl/worksheets/sheet2.xml'')]"
    by code_simp
  have h3: "List.find (\<lambda>(name, path). startswith (lower name) ''nc log'')
              [(''Lists'', ''xl/worksheets/sheet2.xml'')] = None" by code_simp
  have h4: "probe_sheets ex_no_log_package [] (map snd [(''Lists'', ''xl/worksheets/sheet2.xml'')])
              ''Tag Number'' = Inr None" by code_simp
  have d: "read_shared_strings ex_no_dropdown_package = Inr [] \<and>
           sheet_targets ex_no_dropdown_package = Inr [(''NC Log 2024'', ''xl/worksheets/sheet1.xml'')] \<and>
           find_log_sheet ex_no_dropdown_package [] [(''NC Log 2024'', ''xl/worksheets/sheet1.xml'')]
             = Inr (Some ''xl/worksheets/sheet1.xml'') \<and> ''xl/worksheets/sheet1.xml'' \<noteq> [] \<and>
           find_dropdown_sheet ex_no_dropdown_package [] [(''NC Log 2024'', ''xl/worksheets/sheet1.xml'')]
             = Inr None" by code_simp
  from log_sheet_not_found[OF h1 h2 h3 h4] d show ?thesis by blast
qed

section \<open>A package without shared strings\<close>










lemma py_float_error: "py_float s = Inl e \<Longrightarrow> \<exists>msg. e = ValueError msg"
  by (auto simp: py_float_def Let_def split: option.splits prod.splits if_splits)













section \<open>Which rows become records\<close>

lemma log_cells_step:
  "(log_cells ss (c # cs) (rcd, h) = log_cells ss cs (rcd, h) \<and> \<not> mapped_nonempty ss c) \<or>
   (\<exists>e. log_cells ss (c # cs) (rcd, h) = Inl e) \<or>
   (\<exists>rcd1. log_cells ss (c # cs) (rcd, h) = log_cells ss cs (rcd1, True) \<and>
            mapped_nonempty ss c)"
proof (cases "match_column (attrib_get_default c ''r'' [])")
  case None
  then show ?thesis by (simp add: mapped_nonempty_def)
next
  case col: (Some column)
  show ?thesis
  proof (cases "map_of FIELD_MAP column")
    case None
    with col show ?thesis by (simp add: mapped_nonempty_def)
  next
    case fld: (Some field)
    show ?thesis
    proof (cases "cell_value ss c")
      case (Inl e)
      with col fld show ?thesis by simp
    next
      case (Inr vo)
      show ?thesis
      proof (cases vo)
        case None
        with col fld Inr show ?thesis by (simp add: mapped_nonempty_def)
      next
        case (Some v)
        show ?thesis
        proof (cases "strip v = []")
          case True
          with col fld Inr Some show ?thesis by (simp add: mapped_nonempty_def)
        next
          case ne: False
          have m: "mapped_nonempty ss c"
            using col fld Inr Some ne by (simp add: mapped_nonempty_def)
          show ?thesis
          proof (cases "field \<in> set DATE_FIELDS")
            case False
            with col fld Inr Some ne m show ?thesis by (simp add: Let_def, blast)
          next
            case True
            show ?thesis
            proof (cases "excel_serial_to_iso (Some (strip v))")
              case (Inl e)
              with col fld Inr Some ne True show ?thesis by (simp add: Let_def)
            next
              case r: (Inr iso_date)
              with col fld Inr Some ne True m show ?thesis by (simp add: Let_def, blast)
            qed
          qed
        qed
      qed
    qed
  qed
qed

lemma log_cells_has_text:
  "log_cells ss cells (rcd, h) = Inr (rcd', h') \<Longrightarrow>
   h' = (h \<or> list_ex (mapped_nonempty ss) cells)"
proof (induction cells arbitrary: rcd h)
  case Nil
  then show ?case by simp
next
  case (Cons c cs)
  from log_cells_step[of ss c cs rcd h]
  consider (skip) "log_cells ss (c # cs) (rcd, h) = log_cells ss cs (rcd, h)"
                  "\<not> mapped_nonempty ss c"
    | (err) e where "log_cells ss (c # cs) (rcd, h) = Inl e"
    | (upd) rcd1 where "log_cells ss (c # cs) (rcd, h) = log_cells ss cs (rcd1, True)"
                       "mapped_nonempty ss c"
    by blast
  then show ?case
  proof cases
    case skip
    with Cons.prems have "log_cells ss cs (rcd, h) = Inr (rcd', h')" by simp
    from Cons.IH[OF this] skip(2) show ?thesis by simp
  next
    case err
    with Cons.prems show ?thesis by simp
  next
    case upd
    with Cons.prems have "log_cells ss cs (rcd1, True) = Inr (rcd', h')" by simp
    from Cons.IH[OF this] upd(2) show ?thesis by simp
  qed
qed

lemma log_rows_records:
  "log_rows ss rows recs = Inr out \<Longrightarrow>
   out = recs @ map (row_record ss) (filter (row_included ss) rows)"
proof (induction rows arbitrary: recs)
  case Nil
  then show ?case by simp
next
  case (Cons row rows)
  from Cons.prems obtain row_index
    where idx: "py_int (attrib_get_default row ''r'' ''0'') = Inr row_index"
    by (auto split: sum.splits)
  show ?case
  proof (cases "row_index < 7")
    case True
    with idx have "\<not> row_included ss row" by (simp add: row_included_def)
    moreover from Cons.prems idx True have "log_rows ss rows recs = Inr out" by simp
    ultimately show ?thesis using Cons.IH by simp
  next
    case False
    with Cons.prems idx obtain rcd has_text
      where cells: "log_cells ss (findall [qname NAMESPACE_MAIN ''c''] row) ([], False)
                      = Inr (rcd, has_text)"
      by (auto split: sum.splits)
    have ht: "has_text = list_ex (mapped_nonempty ss) (findall [qname NAMESPACE_MAIN ''c''] row)"
      using log_cells_has_text[OF cells] by simp
    have inc: "row_included ss row = has_text"
      using idx False ht by (simp add: row_included_def)
    have rr: "row_record ss row = rcd"
      using cells by (simp add: row_record_def)
    show ?thesis
    proof (cases has_text)
      case True
      with Cons.prems idx False cells
      have "log_rows ss rows (recs @ [rcd]) = Inr out" by simp
      from Cons.IH[OF this] show ?thesis using inc True rr by simp
    next
      case f: False
      with Cons.prems idx False cells
      have "log_rows ss rows recs = Inr out" by simp
      from Cons.IH[OF this] show ?thesis using inc f by simp
    qed
  qed
qed

text \<open>
  C4. The records that reading the log sheet returns are, in order, the records of the rows
  that are included: the rows at or above the header threshold with at least one cell in a
  mapped column whose decoded value is nonempty after trimming. A row at or above the
  threshold whose mapped cells are all absent, empty or blank gives no record.
\<close>

theorem rows_included_iff_mapped_nonempty:
  assumes "read_log_records zf ss path = Inr out"
  shows "\<exists>sheet. read_xml zf path = Inr sheet \<and>
           out = map (row_record ss)
                   (filter (row_included ss)
                      (findall [qname NAMESPACE_MAIN ''sheetData'', qname NAMESPACE_MAIN ''row'']
                         sheet))"
  using assms
  by (auto simp: read_log_records_def split: sum.splits dest: log_rows_records)

text \<open>Of the four rows of the example sheet, only row 8 gives a record; row 7 holds
  blanks in column A and text in an unmapped column.\<close>

theorem rows_included_iff_mapped_nonempty_witness:
  "read_log_records ex_package [] ''xl/worksheets/sheet1.xml'' =
     Inr [[(''tag_number'', ''T1''), (''containment_date'', ''2023-03-15''), (''mfg_date'', ''n/a'')]] \<and>
   map (row_included []) [ex_title_row, ex_header_row, ex_blank_row, ex_data_row] =
     [False, False, False, True] \<and>
   (\<exists>sheet. read_xml ex_package ''xl/worksheets/sheet1.xml'' = Inr sheet \<and>
      [[(''tag_number'', ''T1''), (''containment_date'', ''2023-03-15''), (''mfg_date'', ''n/a'')]] =
      map (row_record [])
        (filter (row_included [])
           (findall [qname NAMESPACE_MAIN ''sheetData'', qname NAMESPACE_MAIN ''row''] sheet)))"
proof -
  have h: "read_log_records ex_package [] ''xl/worksheets/sheet1.xml'' =
     Inr [[(''tag_number'', ''T1''), (''containment_date'', ''2023-03-15''), (''mfg_date'', ''n/a'')]]"
    by code_simp
  have m: "map (row_included []) [ex_title_row, ex_header_row, ex_blank_row, ex_data_row] =
     [False, False, False, True]" by code_simp
  from rows_included_iff_mapped_nonempty[OF h] h m show ?thesis by blast
qed

section \<open>The content probe\<close>

lemma contains_nonempty:
  assumes "needle \<noteq> []" and "contains (lower v) (lower needle)"
  shows "v \<noteq> []"
  using assms by (auto simp: contains_def lower_def)

lemma cells_contain_text_decoded:
  assumes "needle \<noteq> []"
    and "list_all (\<lambda>cell. case cell_value ss cell of Inl e \<Rightarrow> False | Inr v \<Rightarrow> True) cells"
  shows "cells_contain_text ss cells needle =
           Inr (list_ex (\<lambda>cell. case cell_value ss cell of
                                  Inl e \<Rightarrow> False
                                | Inr None \<Rightarrow> False
                                | Inr (Some v) \<Rightarrow> contains (lower v) (lower needle)) cells)"
  using assms(2)
proof (induction cells)
  case Nil
  then show ?case by simp
next
  case (Cons c cs)
  then show ?case
    using contains_nonempty[OF assms(1)]
    by (auto split: sum.splits option.splits)
qed

lemma sheet_contains_text_valid:
  assumes "needle \<noteq> []" and "sheet_valid zf ss path"
  shows "sheet_contains_text zf ss path needle = Inr (sheet_marked zf ss needle path)"
proof -
  from assms(2) obtain tree
    where part: "zf path = Some (Document tree)" and dec: "cells_decode ss tree"
    by (auto simp: sheet_valid_def split: option.splits part.splits)
  have "cells_contain_text ss (sheet_cells tree) needle = Inr (has_marker ss tree needle)"
    unfolding has_marker_def
    by (rule cells_contain_text_decoded[OF assms(1)]) (use dec in \<open>simp add: cells_decode_def\<close>)
  then show ?thesis
    using part by (simp add: sheet_contains_text_def read_xml_def sheet_marked_def)
qed

lemma probe_sheets_valid:
  assumes "needle \<noteq> []" and "\<forall>path \<in> set paths. sheet_valid zf ss path"
  shows "probe_sheets zf ss paths needle = Inr (List.find (sheet_marked zf ss needle) paths)"
  using assms(2)
  by (induction paths) (auto simp: sheet_contains_text_valid[OF assms(1)])

text \<open>
  C7. In a package whose sheets all decode, when no sheet name starts with the log sheet's
  prefix and some sheet holds a cell whose text contains \<^verbatim>\<open>Tag Number\<close> in any case, the
  locator returns a sheet with that marker through the content probe: the first one in the
  order of the sheets, which is that sheet when no other sheet carries the marker.
\<close>

theorem log_sheet_found_by_content:
  assumes "\<forall>(name, path) \<in> set targets. \<not> startswith (lower name) ''nc log''"
    and "\<forall>(name, path) \<in> set targets. sheet_valid zf ss path"
    and "(name, path) \<in> set targets"
    and "sheet_marked zf ss ''Tag Number'' path"
  shows "\<exists>p. find_log_sheet zf ss targets = Inr (Some p) \<and>
              p \<in> snd ` set targets \<and>
              sheet_marked zf ss ''Tag Number'' p \<and>
              List.find (sheet_marked zf ss ''Tag Number'') (map snd targets) = Some p \<and>
              ((\<forall>(n, q) \<in> set targets. sheet_marked zf ss ''Tag Number'' q \<longrightarrow> q = path)
                 \<longrightarrow> p = path)"
proof -
  have nomatch: "List.find (\<lambda>(name, path). startswith (lower name) ''nc log'') targets = None"
    using assms(1) by (auto simp: find_None_iff)
  have valid: "\<forall>path \<in> set (map snd targets). sheet_valid zf ss path"
    using assms(2) by auto
  have ne: "''Tag Number'' \<noteq> []" by simp
  have probe: "find_log_sheet zf ss targets =
                 Inr (List.find (sheet_marked zf ss ''Tag Number'') (map snd targets))"
    using nomatch probe_sheets_valid[OF ne valid] by (simp add: find_log_sheet_def)
  have "path \<in> set (map snd targets)" using assms(3) by force
  with assms(4) obtain p
    where p: "List.find (sheet_marked zf ss ''Tag Number'') (map snd targets) = Some p"
    by (cases "List.find (sheet_marked zf ss ''Tag Number'') (map snd targets)")
       (auto simp: find_None_iff)
  then have pm: "sheet_marked zf ss ''Tag Number'' p" and pin: "p \<in> set (map snd targets)"
    by (auto simp: find_Some_iff)
  from pin have pin': "p \<in> snd ` set targets" by simp
  have uniq: "p = path"
    if "\<forall>(n, q) \<in> set targets. sheet_marked zf ss ''Tag Number'' q \<longrightarrow> q = path"
    using that pm pin by auto
  show ?thesis
    using probe p pm pin' uniq by auto
qed

text \<open>The example package: sheets named \<^verbatim>\<open>Data\<close> and \<^verbatim>\<open>Lists\<close>, the marker in the first.\<close>

theorem log_sheet_found_by_content_witness:
  "find_log_sheet ex_package [] ex_targets = Inr (Some ''xl/worksheets/sheet1.xml'')"
proof -
  have h1: "\<forall>(name, path) \<in> set ex_targets. \<not> startswith (lower name) ''nc log''"
    by code_simp
  have h2: "\<forall>(name, path) \<in> set ex_targets. sheet_valid ex_package [] path"
    by code_simp
  have h3: "(''Data'', ''xl/worksheets/sheet1.xml'') \<in> set ex_targets" by code_simp
  have h4: "sheet_marked ex_package [] ''Tag Number'' ''xl/worksheets/sheet1.xml''" by code_simp
  have "list_all (\<lambda>(n, q). \<not> sheet_marked ex_package [] ''Tag Number'' q \<or>
                                q = ''xl/worksheets/sheet1.xml'') ex_targets"
    by code_simp
  then have u: "\<forall>(n, q) \<in> set ex_targets.
             sheet_marked ex_package [] ''Tag Number'' q \<longrightarrow> q = ''xl/worksheets/sheet1.xml''"
    by (auto simp: list_all_iff)
  from log_sheet_found_by_content[OF h1 h2 h3 h4] obtain p
    where a: "find_log_sheet ex_package [] ex_targets = Inr (Some p)"
      and b: "(\<forall>(n, q) \<in> set ex_targets.
                 sheet_marked ex_package [] ''Tag Number'' q \<longrightarrow> q = ''xl/worksheets/sheet1.xml'')
              \<longrightarrow> p = ''xl/worksheets/sheet1.xml''"
    by blast
  from b u have "p = ''xl/worksheets/sheet1.xml''" by (rule mp)
  with a show ?thesis by simp
qed

section \<open>Date serials\<close>

lemma dropWhile_rev_fixed:
  assumes "xs = [] \<or> \<not> P (last xs)"
  shows "dropWhile P (rev xs) = rev xs"
  using assms by (cases xs rule: rev_cases) auto



lemma base_ordinal: "ymd2ord (year BASE_DATE) (month BASE_DATE) (day BASE_DATE) = 693594"
  by code_simp

lemma timedelta_fails_beyond_calendar:
  assumes "timedelta d = Inl e"
  shows "datetime_add BASE_DATE d = Inl OverflowError"
proof -
  from assms have "999999999 < \<bar>d\<bar>" by (auto simp: timedelta_def split: if_splits)
  then have "\<not> (1 \<le> ymd2ord (year BASE_DATE) (month BASE_DATE) (day BASE_DATE) + d \<and>
            ymd2ord (year BASE_DATE) (month BASE_DATE) (day BASE_DATE) + d \<le> MAXORDINAL)"
    unfolding base_ordinal by (auto simp: MAXORDINAL_def)
  then show ?thesis
    unfolding datetime_add_def Let_def by (rule if_not_P)
qed

lemma excel_serial_to_iso_finite:
  assumes "strip s \<noteq> []" and "py_float (strip s) = Inr (Finite q)"
  shows "excel_serial_to_iso (Some s) =
           (case datetime_add BASE_DATE (if 0 \<le> q then \<lfloor>q\<rfloor> else \<lceil>q\<rceil>) of
              Inl e \<Rightarrow> Inr None
            | Inr date_value \<Rightarrow> Inr (Some (isoformat date_value)))"
proof -
  define d where "d = (if 0 \<le> q then \<lfloor>q\<rfloor> else \<lceil>q\<rceil>)"
  have i: "py_int_of_float (Finite q) = Inr d" by (simp add: py_int_of_float_def d_def)
  show ?thesis
  proof (cases "timedelta d")
    case (Inl e)
    then have e: "e = OverflowError" by (auto simp: timedelta_def split: if_splits)
    from timedelta_fails_beyond_calendar[OF Inl] Inl e assms i show ?thesis
      by (simp add: excel_serial_to_iso_def Let_def d_def [symmetric])
  next
    case (Inr delta)
    then have delta: "delta = d" by (auto simp: timedelta_def split: if_splits)
    show ?thesis
    proof (cases "datetime_add BASE_DATE d")
      case (Inl e)
      then have "e = OverflowError" by (auto simp: datetime_add_def Let_def split: if_splits prod.splits)
      with Inl Inr delta assms i show ?thesis
        by (simp add: excel_serial_to_iso_def Let_def d_def [symmetric])
    next
      case r: (Inr dv)
      with Inr delta assms i show ?thesis
        by (simp add: excel_serial_to_iso_def Let_def d_def [symmetric])
    qed
  qed
qed


lemma excel_serial_to_iso_not_numeric:
  assumes "strip s \<noteq> []" and "py_float (strip s) = Inl e"
  shows "excel_serial_to_iso (Some s) = Inr None"
proof -
  from assms(2) obtain msg where "e = ValueError msg" by (auto dest: py_float_error)
  with assms show ?thesis by (simp add: excel_serial_to_iso_def Let_def)
qed



text \<open>What the converter does on the inputs that do not reach the uncaught conversion.\<close>

lemma excel_serial_to_iso_blank:
  assumes "strip s = []"
  shows "excel_serial_to_iso (Some s) = Inr None"
  using assms by (simp add: excel_serial_to_iso_def)

lemma excel_serial_to_iso_raises_only_nonfinite:
  assumes "excel_serial_to_iso v = Inl e"
  shows "\<exists>s x. v = Some s \<and> py_float (strip s) = Inr x \<and> (x = PosInf \<or> x = NegInf \<or> x = NaN)"
proof (cases v)
  case None
  with assms show ?thesis by (simp add: excel_serial_to_iso_def)
next
  case (Some s)
  show ?thesis
  proof (cases "strip s = []")
    case True
    with assms Some show ?thesis by (simp add: excel_serial_to_iso_blank)
  next
    case ne: False
    show ?thesis
    proof (cases "py_float (strip s)")
      case (Inl e')
      with assms Some ne show ?thesis by (simp add: excel_serial_to_iso_not_numeric)
    next
      case (Inr x)
      show ?thesis
      proof (cases x)
        case (Finite q)
        with assms Some ne Inr show ?thesis
          by (simp add: excel_serial_to_iso_finite split: sum.splits)
      qed (use Some Inr in simp_all)
    qed
  qed
qed



end
